theory Spec2Isabelle
  imports Complex_Main "HOL-Library.Multiset"
begin

section \<open>Data model of pdns-loadtest.py\<close>

text \<open>
  The script drives a PowerDNS HTTP API: it creates a batch of zones, deletes every zone
  carrying a prefix, and reports counts and latency statistics for each batch.

  Conventions of the embedding.
  \<^item> Python floats (durations, clock readings) are modelled as \<^typ>\<open>real\<close>, Python
    integers as \<^typ>\<open>int\<close>, strings as \<^typ>\<open>string\<close>.
  \<^item> An exception is a value \<open>Inl e\<close> of a sum type.
  \<^item> Everything outside the script is an explicit environment (\<open>env\<close>): what the HTTP
    session answers, what \<open>time.time()\<close> and \<open>random.random()\<close> return, and in which
    order the calls of a thread pool take effect.  What the script mutates or emits is an
    explicit \<open>world\<close> that every function takes and returns.
\<close>

datatype error =
  ValueError | JSONDecodeError | TypeError | KeyError | AttributeError
  | StatisticsError | ZeroDivisionError

text \<open>A decoded JSON document, as \<open>response.json()\<close> returns it.\<close>

datatype json =
  JNull | JBool bool | JNum real | JStr string | JArr "json list"
  | JObj "(string \<times> json) list"

datatype http_method = GET | POST | PUT | DELETE

record response =
  status_code :: int
  resp_text :: string
  json_body :: "json option"

record request =
  req_method :: http_method
  req_url :: string
  req_headers :: "(string \<times> string) list"
  req_json :: "json option"
  req_timeout :: int
  req_verify :: bool

text \<open>The attributes that \<open>PDNSLoadTest.__init__\<close> stores on \<open>self\<close>.\<close>

record PDNSLoadTest =
  api_url :: string
  api_key :: string
  zone_prefix :: string
  server_id :: string
  timeout :: int
  verify_ssl :: bool
  max_workers :: int

text \<open>The inner dictionary \<open>"response_times"\<close> and the metrics dictionary.  The two keys
  that the early return of \<open>delete_zones_with_prefix\<close> leaves out are optional fields.\<close>

record latency =
  rt_min :: real
  rt_max :: real
  rt_avg :: real
  rt_median :: real

record metrics =
  operation :: string
  total_zones :: int
  successful :: int
  failed :: int
  total_time_seconds :: real
  average_time_per_zone :: "real option"
  response_times :: "latency option"

text \<open>What the script prints: one constructor per kind of line (the configuration block
  of \<open>main\<close> is one event), carrying the values the line interpolates; number formatting
  and capitalisation are left out.\<close>

datatype out =
  RequestError string
  | FailedList "int option"
  | FailedCreate string "int option" string
  | FailedDelete string "int option" string
  | Creating int string
  | NoZonesFound string
  | Deleting int string
  | MetricsHeader string
  | TotalZones int
  | Successful int
  | Failed int
  | TotalTime real
  | AverageTimePerZone real
  | ApiResponseTimes
  | RtMin real
  | RtMax real
  | RtAvg real
  | RtMedian real
  | SuccessRate real
  | ErrorBothModes
  | Configuration string string string bool "int option"
  | FoundZones nat string
  | ZoneLine string

record env =
  session_send :: "request list \<Rightarrow> request \<Rightarrow> string + response"
  clock :: "nat \<Rightarrow> real"
  random :: "nat \<Rightarrow> real"
  arrival :: "nat \<Rightarrow> nat \<Rightarrow> nat"

text \<open>
  \<^item> \<open>session_send e history req\<close> is the final answer of the \<open>requests\<close> session
    (retries included) to \<open>req\<close> after the requests \<open>history\<close>; \<open>Inl msg\<close> is a
    raised \<open>RequestException\<close>;
  \<^item> \<open>clock e k\<close> is the value of the \<open>k\<close>-th call of \<open>time.time()\<close>;
  \<^item> \<open>random e k\<close> is the value of the \<open>k\<close>-th call of \<open>random.random()\<close>;
  \<^item> \<open>arrival e p i\<close> is the instant at which task \<open>i\<close> of the \<open>p\<close>-th thread pool
    takes effect.
\<close>

record world =
  http_log :: "request list"
  ticks :: nat
  draws :: nat
  sessions :: nat
  pools :: nat
  stdout :: "out list"

definition emit :: "out list \<Rightarrow> world \<Rightarrow> world" where
  "emit lines w = w\<lparr>stdout := stdout w @ lines\<rparr>"

definition bind_err :: "'e + 'a \<Rightarrow> ('a \<Rightarrow> 'e + 'b) \<Rightarrow> 'e + 'b" where
  "bind_err m f = (case m of Inl e \<Rightarrow> Inl e | Inr x \<Rightarrow> f x)"

section \<open>Built-ins and library functions the script calls\<close>

definition rstrip :: "char \<Rightarrow> string \<Rightarrow> string" where
  "rstrip c s = rev (dropWhile (\<lambda>x. x = c) (rev s))"

definition startswith :: "string \<Rightarrow> string \<Rightarrow> bool" where
  "startswith s p = (take (length p) s = p)"

definition endswith :: "string \<Rightarrow> string \<Rightarrow> bool" where
  "endswith s p = (length p \<le> length s \<and> drop (length s - length p) s = p)"

text \<open>\<open>min\<close> and \<open>max\<close> of a list: \<open>ValueError\<close> on an empty one.\<close>

definition py_min :: "real list \<Rightarrow> error + real" where
  "py_min xs = (case xs of [] \<Rightarrow> Inl ValueError | x # rest \<Rightarrow> Inr (fold min rest x))"

definition py_max :: "real list \<Rightarrow> error + real" where
  "py_max xs = (case xs of [] \<Rightarrow> Inl ValueError | x # rest \<Rightarrow> Inr (fold max rest x))"

text \<open>\<open>statistics.mean\<close> and \<open>statistics.median\<close>: \<open>StatisticsError\<close> on no data.\<close>

definition statistics_mean :: "real list \<Rightarrow> error + real" where
  "statistics_mean xs =
     (if xs = [] then Inl StatisticsError else Inr (sum_list xs / real (length xs)))"

definition statistics_median :: "real list \<Rightarrow> error + real" where
  "statistics_median xs =
     (let data = sort xs; n = length data
      in if n = 0 then Inl StatisticsError
         else if n mod 2 = 1 then Inr (data ! (n div 2))
         else (let i = n div 2 in Inr ((data ! (i - 1) + data ! i) / 2)))"

text \<open>Truth value of a \<open>requests.Response\<close>: its \<open>ok\<close> property, which is false
  exactly for the statuses \<open>raise_for_status\<close> rejects.\<close>

definition ok :: "response \<Rightarrow> bool" where
  "ok r = (\<not> (400 \<le> status_code r \<and> status_code r < 600))"

definition truthy :: "response option \<Rightarrow> bool" where
  "truthy r = (case r of None \<Rightarrow> False | Some resp \<Rightarrow> ok resp)"

text \<open>\<open>string.ascii_lowercase + string.digits\<close>.\<close>

definition alphabet :: string where
  "alphabet = ''abcdefghijklmnopqrstuvwxyz0123456789''"

text \<open>\<open>random.choices(population, k=k)\<close> without weights:
  \<open>[population[floor(random() * n)] for i in range(k)]\<close>.\<close>

fun choices :: "env \<Rightarrow> 'a list \<Rightarrow> nat \<Rightarrow> world \<Rightarrow> 'a list \<times> world" where
  "choices e population 0 w = ([], w)"
| "choices e population (Suc k) w =
     (let r = random e (draws w);
          c = population ! nat \<lfloor>r * real (length population)\<rfloor>;
          (rest, w') = choices e population k (w\<lparr>draws := draws w + 1\<rparr>)
      in (c # rest, w'))"

section \<open>The operation executor\<close>

text \<open>
  \<open>_make_request\<close> takes the HTTP method as a string and raises \<open>ValueError\<close> on any
  other than GET, POST, PUT and DELETE.  Every caller passes one of these as a literal, so
  the method is the datatype \<open>http_method\<close> and that branch does not exist here.  Each
  call reads the clock twice, and the request goes to the log whether it is answered or
  fails with a \<open>RequestException\<close>.
\<close>

definition PDNSLoadTest_init ::
  "string \<Rightarrow> string \<Rightarrow> string \<Rightarrow> string \<Rightarrow> int \<Rightarrow> bool \<Rightarrow> int \<Rightarrow> world
     \<Rightarrow> PDNSLoadTest \<times> world" where
  "PDNSLoadTest_init url key pre sid tmo verify workers w =
     (\<lparr>api_url = rstrip CHR ''/'' url, api_key = key, zone_prefix = pre, server_id = sid,
       timeout = tmo, verify_ssl = verify, max_workers = workers\<rparr>,
      w\<lparr>sessions := sessions w + 1\<rparr>)"

definition session_headers :: "PDNSLoadTest \<Rightarrow> (string \<times> string) list" where
  "session_headers self =
     [(''X-API-Key'', api_key self), (''Accept'', ''application/json''),
      (''Content-Type'', ''application/json'')]"

definition make_request ::
  "PDNSLoadTest \<Rightarrow> env \<Rightarrow> http_method \<Rightarrow> string \<Rightarrow> json option \<Rightarrow> world
     \<Rightarrow> (response option \<times> real) \<times> world" where
  "make_request self e m endpoint data w =
     (let url = api_url self @ ''/api/v1/servers/'' @ server_id self @ ''/'' @ endpoint;
          start_time = clock e (ticks w);
          w1 = w\<lparr>ticks := ticks w + 1\<rparr>;
          req = \<lparr>req_method = m, req_url = url, req_headers = session_headers self,
                 req_json = (case m of POST \<Rightarrow> data | PUT \<Rightarrow> data | _ \<Rightarrow> None),
                 req_timeout = timeout self, req_verify = verify_ssl self\<rparr>;
          w2 = w1\<lparr>http_log := http_log w1 @ [req]\<rparr>
      in case session_send e (http_log w1) req of
           Inr resp \<Rightarrow>
             ((Some resp, clock e (ticks w2) - start_time), w2\<lparr>ticks := ticks w2 + 1\<rparr>)
         | Inl ex \<Rightarrow>
             (let w3 = emit [RequestError ex] w2
              in ((None, clock e (ticks w3) - start_time), w3\<lparr>ticks := ticks w3 + 1\<rparr>)))"

definition list_zones ::
  "PDNSLoadTest \<Rightarrow> env \<Rightarrow> world \<Rightarrow> (error + json \<times> real) \<times> world" where
  "list_zones self e w =
     (case make_request self e GET ''zones'' None w of
        ((resp, response_time), w1) \<Rightarrow>
          if truthy resp \<and> status_code (the resp) = 200 then
            (case json_body (the resp) of
               None \<Rightarrow> (Inl JSONDecodeError, w1)
             | Some zones \<Rightarrow> (Inr (zones, response_time), w1))
          else
            (let code = (if truthy resp then Some (status_code (the resp)) else None)
             in (Inr (JArr [], response_time),
                 emit [FailedList code] w1)))"

definition dotted :: "string \<Rightarrow> string" where
  "dotted zone_name = (if \<not> endswith zone_name ''.'' then zone_name @ ''.'' else zone_name)"

definition zone_data :: "string \<Rightarrow> json" where
  "zone_data zone_name =
     JObj [(''name'', JStr zone_name), (''kind'', JStr ''Native''),
           (''nameservers'', JArr [JStr ''ns1.example.com.'', JStr ''ns2.example.com.'']),
           (''soa_edit_api'', JStr ''INCEPTION-INCREMENT''),
           (''soa_edit'', JStr ''INCEPTION-INCREMENT'')]"

definition create_zone ::
  "PDNSLoadTest \<Rightarrow> env \<Rightarrow> string \<Rightarrow> world \<Rightarrow> (bool \<times> real) \<times> world" where
  "create_zone self e zone_name0 w =
     (let zone_name = dotted zone_name0
      in case make_request self e POST ''zones'' (Some (zone_data zone_name)) w of
           ((resp, response_time), w1) \<Rightarrow>
             if truthy resp \<and> status_code (the resp) \<in> {201, 200} then
               ((True, response_time), w1)
             else
               (let code = (if truthy resp then Some (status_code (the resp)) else None);
                    error_msg = (if truthy resp then resp_text (the resp)
                                 else ''Unknown error'')
                in ((False, response_time),
                    emit [FailedCreate zone_name code error_msg] w1)))"

definition delete_zone ::
  "PDNSLoadTest \<Rightarrow> env \<Rightarrow> string \<Rightarrow> world \<Rightarrow> (bool \<times> real) \<times> world" where
  "delete_zone self e zone_name0 w =
     (let zone_name = dotted zone_name0
      in case make_request self e DELETE (''zones/'' @ zone_name) None w of
           ((resp, response_time), w1) \<Rightarrow>
             if truthy resp \<and> status_code (the resp) = 204 then
               ((True, response_time), w1)
             else
               (let code = (if truthy resp then Some (status_code (the resp)) else None);
                    error_msg = (if truthy resp then resp_text (the resp)
                                 else ''Unknown error'')
                in ((False, response_time),
                    emit [FailedDelete zone_name code error_msg] w1)))"

section \<open>The work generator\<close>

text \<open>Iterating a decoded JSON value, subscripting it with \<open>"name"\<close> and calling
  \<open>startswith\<close> on the result, with the exceptions Python raises on the wrong shape.\<close>

definition py_iter :: "json \<Rightarrow> error + json list" where
  "py_iter j =
     (case j of
        JArr xs \<Rightarrow> Inr xs
      | JObj kvs \<Rightarrow> Inr (map (\<lambda>kv. JStr (fst kv)) kvs)
      | JStr s \<Rightarrow> Inr (map (\<lambda>c. JStr [c]) s)
      | _ \<Rightarrow> Inl TypeError)"

definition subscript_name :: "json \<Rightarrow> error + json" where
  "subscript_name zone =
     (case zone of
        JObj kvs \<Rightarrow> (case map_of kvs ''name'' of None \<Rightarrow> Inl KeyError | Some v \<Rightarrow> Inr v)
      | _ \<Rightarrow> Inl TypeError)"

definition py_startswith :: "json \<Rightarrow> string \<Rightarrow> error + bool" where
  "py_startswith v p = (case v of JStr s \<Rightarrow> Inr (startswith s p) | _ \<Rightarrow> Inl AttributeError)"

text \<open>The comprehension
  \<open>[zone["name"] for zone in zones if zone["name"].startswith(self.zone_prefix)]\<close>.\<close>

fun filter_names :: "string \<Rightarrow> json list \<Rightarrow> error + string list" where
  "filter_names p [] = Inr []"
| "filter_names p (zone # zones) =
     bind_err (subscript_name zone) (\<lambda>v.
     bind_err (py_startswith v p) (\<lambda>b.
     bind_err (if b then (case v of JStr n \<Rightarrow> Inr [n] | _ \<Rightarrow> Inl TypeError) else Inr []) (\<lambda>this.
     bind_err (filter_names p zones) (\<lambda>rest. Inr (this @ rest)))))"

definition get_zones_with_prefix ::
  "PDNSLoadTest \<Rightarrow> env \<Rightarrow> world \<Rightarrow> (error + string list) \<times> world" where
  "get_zones_with_prefix self e w =
     (case list_zones self e w of
        (Inl err, w1) \<Rightarrow> (Inl err, w1)
      | (Inr (zones, _), w1) \<Rightarrow>
          (bind_err (py_iter zones) (filter_names (zone_prefix self)), w1))"

definition generate_random_suffix ::
  "PDNSLoadTest \<Rightarrow> env \<Rightarrow> nat \<Rightarrow> world \<Rightarrow> string \<times> world" where
  "generate_random_suffix self e len w = choices e alphabet len w"

text \<open>The comprehension
  \<open>[f"{self.zone_prefix}{self.generate_random_suffix()}.com" for _ in range(count)]\<close>;
  \<open>range(count)\<close> has \<open>nat count\<close> elements.\<close>

fun gen_zone_names :: "PDNSLoadTest \<Rightarrow> env \<Rightarrow> nat \<Rightarrow> world \<Rightarrow> string list \<times> world" where
  "gen_zone_names self e 0 w = ([], w)"
| "gen_zone_names self e (Suc n) w =
     (let (suffix, w1) = generate_random_suffix self e 8 w;
          (rest, w2) = gen_zone_names self e n w1
      in ((zone_prefix self @ suffix @ ''.com'') # rest, w2))"

section \<open>The dispatcher\<close>

text \<open>The body shared by the four result loops:
  \<open>if success: successful += 1 else: failed += 1; response_times.append(response_time)\<close>.
  The accumulator is \<open>(successful, failed, response_times)\<close>.\<close>

type_synonym acc = "int \<times> int \<times> real list"

definition tally :: "bool \<times> real \<Rightarrow> acc \<Rightarrow> acc" where
  "tally r a =
     (case (r, a) of
        ((success, response_time), (succ, fail, rtimes)) \<Rightarrow>
          if success then (succ + 1, fail, rtimes @ [response_time])
          else (succ, fail + 1, rtimes @ [response_time]))"

text \<open>Sequential mode: \<open>for zone_name in zone_names: success, response_time = f(zone_name); ...\<close>\<close>

fun sequential_loop ::
  "(string \<Rightarrow> world \<Rightarrow> (bool \<times> real) \<times> world) \<Rightarrow> string list \<Rightarrow> acc \<Rightarrow> world
     \<Rightarrow> acc \<times> world" where
  "sequential_loop f [] a w = (a, w)"
| "sequential_loop f (zone_name # rest) a w =
     (case f zone_name w of (r, w1) \<Rightarrow> sequential_loop f rest (tally r a) w1)"

text \<open>Parallel mode: \<open>for success, response_time in results: ...\<close>\<close>

fun collect_results :: "(bool \<times> real) list \<Rightarrow> acc \<Rightarrow> acc" where
  "collect_results [] a = a"
| "collect_results (r # rest) a = collect_results rest (tally r a)"

text \<open>
  \<open>list(executor.map(f, xs))\<close> inside \<open>with ThreadPoolExecutor(...)\<close>: one call of \<open>f\<close> per
  element, the results collected in input order once every call has finished.  The calls
  overlap in time; the model lets call \<open>i\<close> take effect as a whole at instant
  \<open>arrival e p i\<close> (ties in input order), so \<open>pool_run\<close> threads the world through the
  calls in arrival order and tags each result with its input index.
\<close>

fun pool_run ::
  "(string \<Rightarrow> world \<Rightarrow> (bool \<times> real) \<times> world) \<Rightarrow> string list \<Rightarrow> nat list \<Rightarrow> world
     \<Rightarrow> (nat \<times> (bool \<times> real)) list \<times> world" where
  "pool_run f xs [] w = ([], w)"
| "pool_run f xs (i # order) w =
     (case f (xs ! i) w of
        (r, w1) \<Rightarrow> (case pool_run f xs order w1 of (rest, w2) \<Rightarrow> ((i, r) # rest, w2)))"

definition pool_map ::
  "env \<Rightarrow> (string \<Rightarrow> world \<Rightarrow> (bool \<times> real) \<times> world) \<Rightarrow> string list \<Rightarrow> world
     \<Rightarrow> (bool \<times> real) list \<times> world" where
  "pool_map e f xs w =
     (let order = sort_key (arrival e (pools w)) [0..<length xs]
      in case pool_run f xs order (w\<lparr>pools := pools w + 1\<rparr>) of
           (finished, w1) \<Rightarrow> (map snd (sort_key fst finished), w1))"

section \<open>The metrics aggregator\<close>

definition py_truediv :: "real \<Rightarrow> int \<Rightarrow> error + real" where
  "py_truediv a b = (if b = 0 then Inl ZeroDivisionError else Inr (a / real_of_int b))"

text \<open>The inner dictionary \<open>"response_times"\<close>, each entry guarded by
  \<open>... if response_times else 0\<close>.\<close>

definition latency_stats :: "real list \<Rightarrow> error + latency" where
  "latency_stats ts =
     bind_err (if ts \<noteq> [] then py_min ts else Inr 0) (\<lambda>mn.
     bind_err (if ts \<noteq> [] then py_max ts else Inr 0) (\<lambda>mx.
     bind_err (if ts \<noteq> [] then statistics_mean ts else Inr 0) (\<lambda>av.
     bind_err (if ts \<noteq> [] then statistics_median ts else Inr 0) (\<lambda>md.
     Inr \<lparr>rt_min = mn, rt_max = mx, rt_avg = av, rt_median = md\<rparr>))))"

text \<open>The dictionary literal that ends \<open>create_zones\<close> and \<open>delete_zones_with_prefix\<close>
  (the same text in both, but for the value of \<open>"operation"\<close>).\<close>

definition build_metrics ::
  "string \<Rightarrow> int \<Rightarrow> int \<Rightarrow> int \<Rightarrow> real \<Rightarrow> real list \<Rightarrow> error + metrics" where
  "build_metrics opn cnt succ fail total_time rtimes =
     bind_err (if cnt > 0 then py_truediv total_time cnt else Inr 0) (\<lambda>average.
     bind_err (latency_stats rtimes) (\<lambda>rt.
     Inr \<lparr>operation = opn, total_zones = cnt, successful = succ, failed = fail,
          total_time_seconds = total_time, average_time_per_zone = Some average,
          response_times = Some rt\<rparr>))"

section \<open>The two batches\<close>

definition create_zones ::
  "PDNSLoadTest \<Rightarrow> env \<Rightarrow> int \<Rightarrow> bool \<Rightarrow> world \<Rightarrow> (error + metrics) \<times> world" where
  "create_zones self e cnt parallel w0 =
     (let w1 = emit [Creating cnt (zone_prefix self)] w0;
          start_time = clock e (ticks w1);
          w2 = w1\<lparr>ticks := ticks w1 + 1\<rparr>
      in case gen_zone_names self e (nat cnt) w2 of
           (zone_names, w3) \<Rightarrow>
             (case (if parallel \<and> max_workers self > 1 then
                      (case pool_map e (create_zone self e) zone_names w3 of
                         (results, w) \<Rightarrow> (collect_results results (0, 0, []), w))
                    else sequential_loop (create_zone self e) zone_names (0, 0, []) w3) of
                ((successful_creations, failed_creations, rtimes), w4) \<Rightarrow>
                  (let total_time = clock e (ticks w4) - start_time;
                       w5 = w4\<lparr>ticks := ticks w4 + 1\<rparr>
                   in (build_metrics ''create'' cnt successful_creations failed_creations
                         total_time rtimes, w5))))"

definition delete_zones_with_prefix ::
  "PDNSLoadTest \<Rightarrow> env \<Rightarrow> bool \<Rightarrow> world \<Rightarrow> (error + metrics) \<times> world" where
  "delete_zones_with_prefix self e parallel w0 =
     (case get_zones_with_prefix self e w0 of
        (Inl err, w1) \<Rightarrow> (Inl err, w1)
      | (Inr zones_to_delete, w1) \<Rightarrow>
          (let cnt = int (length zones_to_delete)
           in if cnt = 0 then
                (Inr \<lparr>operation = ''delete'', total_zones = 0, successful = 0, failed = 0,
                      total_time_seconds = 0, average_time_per_zone = None,
                      response_times = None\<rparr>,
                 emit [NoZonesFound (zone_prefix self)] w1)
              else
                (let w2 = emit [Deleting cnt (zone_prefix self)] w1;
                     start_time = clock e (ticks w2);
                     w3 = w2\<lparr>ticks := ticks w2 + 1\<rparr>
                 in case (if parallel \<and> max_workers self > 1 then
                            (case pool_map e (delete_zone self e) zones_to_delete w3 of
                               (results, w) \<Rightarrow> (collect_results results (0, 0, []), w))
                          else sequential_loop (delete_zone self e) zones_to_delete
                                 (0, 0, []) w3) of
                      ((successful_deletions, failed_deletions, rtimes), w4) \<Rightarrow>
                        (let total_time = clock e (ticks w4) - start_time;
                             w5 = w4\<lparr>ticks := ticks w4 + 1\<rparr>
                         in (build_metrics ''delete'' cnt successful_deletions
                               failed_deletions total_time rtimes, w5)))))"

section \<open>Reporting and the entry point\<close>

definition print_metrics :: "metrics \<Rightarrow> world \<Rightarrow> (error + unit) \<times> world" where
  "print_metrics m w =
     (let w1 = emit [MetricsHeader (operation m), TotalZones (total_zones m),
                     Successful (successful m), Failed (failed m),
                     TotalTime (total_time_seconds m)] w
      in if total_zones m > 0 then
           (case average_time_per_zone m of
              None \<Rightarrow> (Inl KeyError, w1)
            | Some average \<Rightarrow>
                (let w2 = emit [AverageTimePerZone average] w1;
                     w3 = (case response_times m of
                             None \<Rightarrow> w2
                           | Some rt \<Rightarrow>
                               emit [ApiResponseTimes, RtMin (rt_min rt), RtMax (rt_max rt),
                                     RtAvg (rt_avg rt), RtMedian (rt_median rt)] w2)
                 in (Inr (),
                     emit [SuccessRate (real_of_int (successful m)
                             / real_of_int (total_zones m) * 100)] w3)))
         else (Inr (), emit [SuccessRate 0] w1))"

text \<open>The namespace \<open>parse_arguments\<close> returns.\<close>

record args =
  arg_url :: string
  arg_key :: string
  arg_server_id :: string
  arg_prefix :: string
  arg_count :: int
  arg_timeout :: int
  arg_no_verify_ssl :: bool
  arg_parallel :: bool
  arg_workers :: int
  arg_create_only :: bool
  arg_delete_only :: bool
  arg_list_only :: bool

text \<open>How the process ends: \<open>sys.exit(n)\<close> or a normal return (\<open>Exit 0\<close>), or an exception
  nobody catches.\<close>

datatype exit = Exit int | Uncaught error

definition run_batch ::
  "(error + metrics) \<times> world \<Rightarrow> (error + unit) \<times> world" where
  "run_batch r = (case r of (Inl err, w) \<Rightarrow> (Inl err, w) | (Inr m, w) \<Rightarrow> print_metrics m w)"

definition main :: "env \<Rightarrow> args \<Rightarrow> world \<Rightarrow> exit \<times> world" where
  "main e a w0 =
     (if arg_create_only a \<and> arg_delete_only a then (Exit 1, emit [ErrorBothModes] w0)
      else
        (case PDNSLoadTest_init (arg_url a) (arg_key a) (arg_prefix a) (arg_server_id a)
                (arg_timeout a) (\<not> arg_no_verify_ssl a) (arg_workers a) w0 of
           (load_test, w1) \<Rightarrow>
             (let w2 = emit [Configuration (arg_url a) (arg_server_id a) (arg_prefix a)
                               (arg_parallel a)
                               (if arg_parallel a then Some (arg_workers a) else None)] w1
              in if arg_list_only a then
                   (case get_zones_with_prefix load_test e w2 of
                      (Inl err, w3) \<Rightarrow> (Uncaught err, w3)
                    | (Inr zones, w3) \<Rightarrow>
                        (Exit 0,
                         emit (FoundZones (length zones) (arg_prefix a) # map ZoneLine zones)
                           w3))
                 else
                   (case (if \<not> arg_delete_only a then
                            run_batch (create_zones load_test e (arg_count a)
                                         (arg_parallel a) w2)
                          else (Inr (), w2)) of
                      (Inl err, w3) \<Rightarrow> (Uncaught err, w3)
                    | (Inr _, w3) \<Rightarrow>
                        (case (if \<not> arg_create_only a then
                                 run_batch (delete_zones_with_prefix load_test e
                                              (arg_parallel a) w3)
                               else (Inr (), w3)) of
                           (Inl err, w4) \<Rightarrow> (Uncaught err, w4)
                         | (Inr _, w4) \<Rightarrow> (Exit 0, w4))))))"

section \<open>Notions used to state the properties\<close>

text \<open>The outcome records of a batch: the \<open>(success, response_time)\<close> pairs the executor
  returns, one per call, in input order.  In sequential mode they are not stored by the
  script; \<open>call_each\<close> lists what the loop receives call after call.\<close>

fun call_each ::
  "(string \<Rightarrow> world \<Rightarrow> (bool \<times> real) \<times> world) \<Rightarrow> string list \<Rightarrow> world
     \<Rightarrow> (bool \<times> real) list \<times> world" where
  "call_each f [] w = ([], w)"
| "call_each f (x # xs) w =
     (case f x w of (r, w1) \<Rightarrow> (case call_each f xs w1 of (rs, w2) \<Rightarrow> (r # rs, w2)))"

definition dispatch ::
  "env \<Rightarrow> bool \<Rightarrow> int \<Rightarrow> (string \<Rightarrow> world \<Rightarrow> (bool \<times> real) \<times> world) \<Rightarrow> string list
     \<Rightarrow> world \<Rightarrow> (bool \<times> real) list \<times> world" where
  "dispatch e parallel workers f xs w =
     (if parallel \<and> workers > 1 then pool_map e f xs w else call_each f xs w)"

definition successes :: "(bool \<times> real) list \<Rightarrow> int" where
  "successes rs = int (length (filter fst rs))"

definition failures :: "(bool \<times> real) list \<Rightarrow> int" where
  "failures rs = int (length (filter (\<lambda>r. \<not> fst r) rs))"

text \<open>The descriptors of a create batch (the generated zone names) with the world in which
  the dispatch starts, and the world in which the dispatch of a delete batch starts.\<close>

definition create_start :: "PDNSLoadTest \<Rightarrow> env \<Rightarrow> int \<Rightarrow> world \<Rightarrow> string list \<times> world" where
  "create_start self e cnt w0 =
     gen_zone_names self e (nat cnt)
       ((emit [Creating cnt (zone_prefix self)] w0)\<lparr>ticks := ticks w0 + 1\<rparr>)"

definition delete_start :: "PDNSLoadTest \<Rightarrow> int \<Rightarrow> world \<Rightarrow> world" where
  "delete_start self cnt w1 =
     (emit [Deleting cnt (zone_prefix self)] w1)\<lparr>ticks := ticks w1 + 1\<rparr>"

definition create_outcomes ::
  "PDNSLoadTest \<Rightarrow> env \<Rightarrow> int \<Rightarrow> bool \<Rightarrow> world \<Rightarrow> (bool \<times> real) list" where
  "create_outcomes self e cnt parallel w0 =
     (case create_start self e cnt w0 of
        (names, w3) \<Rightarrow> fst (dispatch e parallel (max_workers self) (create_zone self e) names w3))"

definition delete_outcomes ::
  "PDNSLoadTest \<Rightarrow> env \<Rightarrow> bool \<Rightarrow> world \<Rightarrow> (bool \<times> real) list" where
  "delete_outcomes self e parallel w0 =
     (case get_zones_with_prefix self e w0 of
        (Inl err, w1) \<Rightarrow> []
      | (Inr zs, w1) \<Rightarrow>
          fst (dispatch e parallel (max_workers self) (delete_zone self e) zs
                 (delete_start self (int (length zs)) w1)))"

text \<open>The median by the conventional rule: the middle value of the sorted data, or the
  average of the two middle values when their number is even.\<close>

definition median_of :: "real list \<Rightarrow> real" where
  "median_of xs =
     (let data = sort xs; n = length data
      in if n mod 2 = 1 then data ! (n div 2)
         else (data ! (n div 2 - 1) + data ! (n div 2)) / 2)"

text \<open>A latency record that holds the standard statistics of the durations \<open>ds\<close>.\<close>

definition stats_over :: "real list \<Rightarrow> latency \<Rightarrow> bool" where
  "stats_over ds lat =
     (rt_min lat = Min (set ds) \<and> rt_max lat = Max (set ds)
      \<and> rt_avg lat = sum_list ds / real (length ds) \<and> rt_median lat = median_of ds)"

definition zero_latency :: latency where
  "zero_latency = \<lparr>rt_min = 0, rt_max = 0, rt_avg = 0, rt_median = 0\<rparr>"

text \<open>The metrics dictionary of the early return of \<open>delete_zones_with_prefix\<close>.\<close>

definition no_work_metrics :: metrics where
  "no_work_metrics =
     \<lparr>operation = ''delete'', total_zones = 0, successful = 0, failed = 0,
      total_time_seconds = 0, average_time_per_zone = None, response_times = None\<rparr>"

text \<open>Two metrics records that agree on everything but the wall-clock entries
  \<open>total_time_seconds\<close> and \<open>average_time_per_zone\<close>.\<close>

definition same_counts_and_latency :: "metrics \<Rightarrow> metrics \<Rightarrow> bool" where
  "same_counts_and_latency m1 m2 =
     (operation m1 = operation m2 \<and> total_zones m1 = total_zones m2
      \<and> successful m1 = successful m2 \<and> failed m1 = failed m2
      \<and> response_times m1 = response_times m2)"

definition delete_calls :: "world \<Rightarrow> request list" where
  "delete_calls w = filter (\<lambda>r. req_method r = DELETE) (http_log w)"

subsection \<open>Concrete inputs\<close>

definition self_demo :: PDNSLoadTest where
  "self_demo =
     \<lparr>api_url = ''http://localhost:8081'', api_key = ''secret'', zone_prefix = ''loadtest-'',
      server_id = ''localhost'', timeout = 30, verify_ssl = True, max_workers = 10\<rparr>"

definition world0 :: world where
  "world0 = \<lparr>http_log = [], ticks = 0, draws = 0, sessions = 0, pools = 0, stdout = []\<rparr>"

definition answer :: "int \<Rightarrow> json option \<Rightarrow> string + response" where
  "answer code body = Inr \<lparr>status_code = code, resp_text = [], json_body = body\<rparr>"

definition listing_demo :: json where
  "listing_demo =
     JArr [JObj [(''name'', JStr ''loadtest-abc.com.'')],
           JObj [(''name'', JStr ''other.org.''), (''kind'', JStr ''Native'')],
           JObj [(''name'', JStr ''loadtest-xyz.com.'')]]"

text \<open>A server that lists three zones, fails the second request it receives (status 422
  for a create, a transport error for a delete) and accepts every other one.  The
  \<open>k\<close>-th pair of clock readings is \<open>k / 10\<close> apart, every random draw is \<open>0\<close>, and the
  tasks of a pool take effect in reverse input order.\<close>

definition env_demo :: env where
  "env_demo =
     \<lparr>session_send = (\<lambda>h r.
        case req_method r of
          GET \<Rightarrow> answer 200 (Some listing_demo)
        | POST \<Rightarrow> (if length h = 1 then answer 422 None else answer 201 None)
        | PUT \<Rightarrow> answer 405 None
        | DELETE \<Rightarrow> (if length h = 1 then Inl ''timed out'' else answer 204 None)),
      clock = (\<lambda>k. real ((k div 2) * (k div 2 + 1)) / 20),
      random = (\<lambda>k. 0),
      arrival = (\<lambda>p i. 10 - i)\<rparr>"

text \<open>A server whose listing holds no zone with the prefix, one that cannot be reached
  and one that answers every request with status 404.\<close>

definition env_no_match :: env where
  "env_no_match =
     env_demo\<lparr>session_send :=
       (\<lambda>h r. answer 200 (Some (JArr [JObj [(''name'', JStr ''other.org.'')]])))\<rparr>"

definition env_down :: env where
  "env_down = env_demo\<lparr>session_send := (\<lambda>h r. Inl ''connection refused'')\<rparr>"

definition env_not_found :: env where
  "env_not_found = env_demo\<lparr>session_send := (\<lambda>h r. answer 404 None)\<rparr>"

text \<open>A server that accepts every request, under two clocks.  With \<open>env_serial\<close> every
  call takes one second and the next one starts when it ends; with \<open>env_overlap\<close> the two
  calls of a batch of two take one second each and run at the same time (the readings of
  the second call repeat those of the first).\<close>

definition env_serial :: env where
  "env_serial =
     \<lparr>session_send = (\<lambda>h r.
        case req_method r of
          GET \<Rightarrow> answer 200 (Some listing_demo)
        | POST \<Rightarrow> answer 201 None
        | PUT \<Rightarrow> answer 405 None
        | DELETE \<Rightarrow> answer 204 None),
      clock = (\<lambda>k. real (k div 2)),
      random = (\<lambda>k. 0),
      arrival = (\<lambda>p i. i)\<rparr>"

definition env_overlap :: env where
  "env_overlap = env_serial\<lparr>clock := (\<lambda>k. [0, 0, 1, 0, 1, 1] ! k)\<rparr>"

definition args_demo :: args where
  "args_demo =
     \<lparr>arg_url = ''http://localhost:8081'', arg_key = ''secret'', arg_server_id = ''localhost'',
      arg_prefix = ''loadtest-'', arg_count = 10, arg_timeout = 30, arg_no_verify_ssl = False,
      arg_parallel = False, arg_workers = 10, arg_create_only = True, arg_delete_only = True,
      arg_list_only = False\<rparr>"

section \<open>Properties of the dispatcher and the aggregator\<close>

lemma collect_results_eq:
  "collect_results rs (s, f, ts) = (s + successes rs, f + failures rs, ts @ map snd rs)"
  by (induction rs arbitrary: s f ts) (auto simp: tally_def successes_def failures_def)

lemma sequential_loop_eq:
  "sequential_loop f xs a w =
     (collect_results (fst (call_each f xs w)) a, snd (call_each f xs w))"
  by (induction xs arbitrary: a w) (simp_all add: split_beta)

lemma length_call_each: "length (fst (call_each f xs w)) = length xs"
  by (induction xs arbitrary: w) (simp_all add: split_beta)

lemma tags_pool_run: "map fst (fst (pool_run f xs order w)) = order"
  by (induction order arbitrary: w) (simp_all add: split_beta)

lemma length_pool_run: "length (fst (pool_run f xs order w)) = length order"
  using tags_pool_run [of f xs order w] by (metis length_map)

lemma length_pool_map: "length (fst (pool_map e f xs w)) = length xs"
  by (simp add: pool_map_def Let_def split_beta length_pool_run)

lemma length_dispatch: "length (fst (dispatch e par k f xs w)) = length xs"
  by (simp add: dispatch_def length_pool_map length_call_each)

lemma successes_failures: "successes rs + failures rs = int (length rs)"
  unfolding successes_def failures_def by (induction rs) auto

lemma length_gen_zone_names: "length (fst (gen_zone_names self e n w)) = n"
  by (induction n arbitrary: w) (simp_all add: split_beta)

lemma length_create_start: "length (fst (create_start self e cnt w)) = nat cnt"
  by (simp add: create_start_def length_gen_zone_names)

lemma length_create_outcomes: "length (create_outcomes self e cnt par w) = nat cnt"
  by (simp add: create_outcomes_def split_beta length_dispatch length_create_start)

lemma length_delete_outcomes:
  "fst (get_zones_with_prefix self e w) = Inr zs \<Longrightarrow>
   length (delete_outcomes self e par w) = length zs"
  by (cases "get_zones_with_prefix self e w")
     (simp add: delete_outcomes_def length_dispatch)

lemma fold_min_Min: "fold min xs (x::real) = Min (insert x (set xs))"
  using Min.set_eq_fold [of x xs] by simp

lemma fold_max_Max: "fold max xs (x::real) = Max (insert x (set xs))"
  using Max.set_eq_fold [of x xs] by simp

lemma statistics_median_eq: "ts \<noteq> [] \<Longrightarrow> statistics_median ts = Inr (median_of ts)"
  by (cases ts) (simp_all add: statistics_median_def median_of_def Let_def)

lemma latency_stats_nonempty:
  "ts \<noteq> [] \<Longrightarrow>
   latency_stats ts =
     Inr \<lparr>rt_min = Min (set ts), rt_max = Max (set ts),
          rt_avg = sum_list ts / real (length ts), rt_median = median_of ts\<rparr>"
  by (cases ts)
     (simp_all add: latency_stats_def bind_err_def py_min_def py_max_def statistics_mean_def
        statistics_median_def median_of_def Let_def fold_min_Min fold_max_Max)

lemma latency_stats_empty: "latency_stats [] = Inr zero_latency"
  by (simp add: latency_stats_def bind_err_def zero_latency_def)

lemma latency_stats_total: "\<exists>lat. latency_stats ts = Inr lat"
  by (cases "ts = []") (simp_all add: latency_stats_empty latency_stats_nonempty)

lemma build_metrics_eq:
  "latency_stats ts = Inr lat \<Longrightarrow>
   build_metrics opn cnt s f t ts =
     Inr \<lparr>operation = opn, total_zones = cnt, successful = s, failed = f,
          total_time_seconds = t,
          average_time_per_zone = Some (if cnt > 0 then t / real_of_int cnt else 0),
          response_times = Some lat\<rparr>"
  by (simp add: build_metrics_def py_truediv_def bind_err_def)

lemma create_zones_eq:
  "create_zones self e cnt par w0 =
     (let (names, w3) = create_start self e cnt w0;
          (rs, w4) = dispatch e par (max_workers self) (create_zone self e) names w3
      in (build_metrics ''create'' cnt (successes rs) (failures rs)
            (clock e (ticks w4) - clock e (ticks w0)) (map snd rs),
          w4\<lparr>ticks := ticks w4 + 1\<rparr>))"
  by (simp add: create_zones_def create_start_def dispatch_def Let_def emit_def
        sequential_loop_eq collect_results_eq split_beta)

lemma delete_zones_eq:
  "get_zones_with_prefix self e w0 = (Inr zs, w1) \<Longrightarrow> zs \<noteq> [] \<Longrightarrow>
   delete_zones_with_prefix self e par w0 =
     (let (rs, w4) = dispatch e par (max_workers self) (delete_zone self e) zs
                       (delete_start self (int (length zs)) w1)
      in (build_metrics ''delete'' (int (length zs)) (successes rs) (failures rs)
            (clock e (ticks w4) - clock e (ticks w1)) (map snd rs),
          w4\<lparr>ticks := ticks w4 + 1\<rparr>))"
  by (simp add: delete_zones_with_prefix_def delete_start_def dispatch_def Let_def emit_def
        sequential_loop_eq collect_results_eq split_beta)

lemma delete_zones_empty:
  "get_zones_with_prefix self e w0 = (Inr [], w1) \<Longrightarrow>
   delete_zones_with_prefix self e par w0 =
     (Inr no_work_metrics, emit [NoZonesFound (zone_prefix self)] w1)"
  by (simp add: delete_zones_with_prefix_def no_work_metrics_def)

text \<open>What a create batch returns, in terms of its outcome records.\<close>

lemma create_zones_metrics:
  "\<exists>t lat. latency_stats (map snd (create_outcomes self e cnt par w)) = Inr lat
     \<and> fst (create_zones self e cnt par w) =
         Inr \<lparr>operation = ''create'', total_zones = cnt,
              successful = successes (create_outcomes self e cnt par w),
              failed = failures (create_outcomes self e cnt par w),
              total_time_seconds = t,
              average_time_per_zone = Some (if cnt > 0 then t / real_of_int cnt else 0),
              response_times = Some lat\<rparr>"
proof -
  obtain lat where lat: "latency_stats (map snd (create_outcomes self e cnt par w)) = Inr lat"
    using latency_stats_total by blast
  show ?thesis
    using lat build_metrics_eq [OF lat]
    by (simp add: create_zones_eq create_outcomes_def split_beta)
qed

text \<open>What a delete batch over a non-empty list of zones returns.\<close>

lemma delete_zones_metrics:
  assumes "fst (get_zones_with_prefix self e w) = Inr zs" and "zs \<noteq> []"
  shows "\<exists>t lat. latency_stats (map snd (delete_outcomes self e par w)) = Inr lat
     \<and> fst (delete_zones_with_prefix self e par w) =
         Inr \<lparr>operation = ''delete'', total_zones = int (length zs),
              successful = successes (delete_outcomes self e par w),
              failed = failures (delete_outcomes self e par w),
              total_time_seconds = t,
              average_time_per_zone = Some (t / real (length zs)),
              response_times = Some lat\<rparr>"
proof -
  obtain w1 where g: "get_zones_with_prefix self e w = (Inr zs, w1)"
    using assms(1) by (cases "get_zones_with_prefix self e w") simp
  obtain lat where lat: "latency_stats (map snd (delete_outcomes self e par w)) = Inr lat"
    using latency_stats_total by blast
  show ?thesis
    using lat build_metrics_eq [OF lat] assms(2)
    by (simp add: delete_zones_eq [OF g assms(2)] delete_outcomes_def g split_beta)
qed

text \<open>The requests a batch sends: every call of the executor appends one request to the
  log, and printing leaves the log alone.\<close>

lemma http_log_emit: "http_log (emit ls w) = http_log w"
  by (simp add: emit_def)

lemma make_request_log:
  "\<exists>req. req_method req = m \<and> http_log (snd (make_request self e m ep d w)) = http_log w @ [req]"
  by (simp add: make_request_def Let_def emit_def split: sum.splits)

lemma list_zones_log:
  "\<exists>req. req_method req = GET \<and> http_log (snd (list_zones self e w)) = http_log w @ [req]"
  using make_request_log [of GET self e "''zones''" None w]
  by (auto simp: list_zones_def Let_def http_log_emit split: prod.splits option.splits)

lemma get_zones_log:
  "\<exists>req. req_method req = GET
     \<and> http_log (snd (get_zones_with_prefix self e w)) = http_log w @ [req]"
  using list_zones_log [of self e w]
  by (auto simp: get_zones_with_prefix_def split: prod.splits sum.splits)

lemma delete_zones_no_work:
  assumes "fst (get_zones_with_prefix self e w) = Inr []"
  shows "fst (delete_zones_with_prefix self e par w) = Inr no_work_metrics"
    and "\<exists>req. req_method req = GET
           \<and> http_log (snd (delete_zones_with_prefix self e par w)) = http_log w @ [req]"
    and "delete_calls (snd (delete_zones_with_prefix self e par w)) = delete_calls w"
proof -
  obtain w1 where g: "get_zones_with_prefix self e w = (Inr [], w1)"
    using assms by (cases "get_zones_with_prefix self e w") simp
  show "fst (delete_zones_with_prefix self e par w) = Inr no_work_metrics"
    by (simp add: delete_zones_empty [OF g])
  show l: "\<exists>req. req_method req = GET
           \<and> http_log (snd (delete_zones_with_prefix self e par w)) = http_log w @ [req]"
    using get_zones_log [of self e w] by (simp add: delete_zones_empty [OF g] g http_log_emit)
  then show "delete_calls (snd (delete_zones_with_prefix self e par w)) = delete_calls w"
    by (auto simp: delete_calls_def)
qed

lemma list_zones_failed:
  assumes "make_request self e GET ''zones'' None w = ((resp, t), w1)"
    and "resp = None \<or> (\<exists>r. resp = Some r \<and> status_code r \<noteq> 200)"
  shows "fst (list_zones self e w) = Inr (JArr [], t)"
  using assms by (auto simp: list_zones_def Let_def truthy_def)

lemma get_zones_of_empty_listing:
  "fst (list_zones self e w) = Inr (JArr [], t) \<Longrightarrow> fst (get_zones_with_prefix self e w) = Inr []"
  by (cases "list_zones self e w")
     (simp add: get_zones_with_prefix_def py_iter_def bind_err_def)

lemma get_zones_no_match:
  "fst (get_zones_with_prefix self_demo env_no_match world0) = Inr []"
  by (simp add: get_zones_with_prefix_def list_zones_def make_request_def self_demo_def
      env_no_match_def env_demo_def world0_def answer_def truthy_def ok_def py_iter_def
      subscript_name_def py_startswith_def startswith_def bind_err_def Let_def
      session_headers_def)

lemma make_request_down:
  "fst (make_request self_demo env_down GET ''zones'' None world0) = (None, 0)"
  by (simp add: make_request_def self_demo_def env_down_def env_demo_def world0_def Let_def
        emit_def session_headers_def)

lemma make_request_not_found:
  "fst (make_request self_demo env_not_found GET ''zones'' None world0)
     = (Some \<lparr>status_code = 404, resp_text = [], json_body = None\<rparr>, 0)"
  by (simp add: make_request_def self_demo_def env_not_found_def env_demo_def world0_def
        Let_def emit_def session_headers_def answer_def)

text \<open>Evaluation of the batches on the concrete inputs.\<close>

lemma choices_zero_draws:
  "random e = (\<lambda>k. 0) \<Longrightarrow> population \<noteq> [] \<Longrightarrow>
   choices e population k w = (replicate k (hd population), w\<lparr>draws := draws w + k\<rparr>)"
  by (induction k arbitrary: w) (simp_all add: Let_def hd_conv_nth)

lemma gen_zone_names_zero_draws:
  "random e = (\<lambda>k. 0) \<Longrightarrow>
   gen_zone_names self e n w =
     (replicate n (zone_prefix self @ ''aaaaaaaa.com''), w\<lparr>draws := draws w + 8 * n\<rparr>)"
  by (induction n arbitrary: w)
     (simp_all add: generate_random_suffix_def choices_zero_draws alphabet_def
        eval_nat_numeral)

lemma create_start_zero_draws:
  "random e = (\<lambda>k. 0) \<Longrightarrow>
   create_start self e cnt w =
     (replicate (nat cnt) (zone_prefix self @ ''aaaaaaaa.com''),
      w\<lparr>stdout := stdout w @ [Creating cnt (zone_prefix self)], ticks := ticks w + 1,
        draws := draws w + 8 * nat cnt\<rparr>)"
  by (simp add: create_start_def gen_zone_names_zero_draws emit_def)

lemma random_env_demo: "random env_demo = (\<lambda>k. 0)"
  by (simp add: env_demo_def)


lemma replicate_2: "replicate 2 x = [x, x]"
  by (simp add: eval_nat_numeral)

lemma create_outcomes_demo_2:
  "create_outcomes self_demo env_demo 2 False world0 = [(True, 1/10), (False, 1/5)]"
  unfolding create_outcomes_def create_start_zero_draws [OF random_env_demo]
  by (simp add: replicate_2 dispatch_def self_demo_def env_demo_def world0_def
      create_zone_def make_request_def dotted_def endswith_def zone_data_def emit_def
      session_headers_def truthy_def ok_def answer_def Let_def)


lemma get_zones_demo_full:
  "get_zones_with_prefix self_demo env_demo world0
     = (Inr [''loadtest-abc.com.'', ''loadtest-xyz.com.''],
        world0\<lparr>http_log := [\<lparr>req_method = GET,
            req_url = ''http://localhost:8081/api/v1/servers/localhost/zones'',
            req_headers = session_headers self_demo, req_json = None, req_timeout = 30,
            req_verify = True\<rparr>], ticks := 2\<rparr>)"
  by (simp add: get_zones_with_prefix_def list_zones_def make_request_def self_demo_def
      env_demo_def world0_def answer_def listing_demo_def truthy_def ok_def py_iter_def
      subscript_name_def py_startswith_def startswith_def bind_err_def Let_def
      session_headers_def)

lemma delete_outcomes_demo:
  "delete_outcomes self_demo env_demo False world0 = [(False, 1/5), (True, 3/10)]"
  unfolding delete_outcomes_def get_zones_demo_full
  by (simp add: dispatch_def delete_start_def self_demo_def env_demo_def world0_def
      delete_zone_def make_request_def dotted_def endswith_def emit_def
      session_headers_def truthy_def ok_def answer_def Let_def)








text \<open>The pool returns its results in input order: the \<open>i\<close>-th result is what the call
  on the \<open>i\<close>-th element returned.\<close>

lemma pool_run_results:
  "(i, r) \<in> set (fst (pool_run f xs order w)) \<Longrightarrow> \<exists>w'. r = fst (f (xs ! i) w')"
  by (induction order arbitrary: w) (auto simp: split_beta)

lemma pool_tags_in_order:
  "map fst (sort_key fst (fst (pool_run f xs (sort_key prio [0..<n]) w))) = [0..<n]"
proof -
  let ?S = "sort_key fst (fst (pool_run f xs (sort_key prio [0..<n]) w))"
  have "mset (map fst ?S) = mset [0..<n]"
    by (metis mset_map mset_sort tags_pool_run)
  moreover have "sorted (map fst ?S)"
    by simp
  ultimately have "sort [0..<n] = map fst ?S"
    by (rule properties_for_sort)
  then show ?thesis
    by simp
qed

lemma pool_map_nth:
  assumes "i < length xs"
  shows "\<exists>w'. fst (pool_map e f xs w) ! i = fst (f (xs ! i) w')"
proof -
  let ?fin = "fst (pool_run f xs (sort_key (arrival e (pools w)) [0..<length xs])
                      (w\<lparr>pools := pools w + 1\<rparr>))"
  let ?S = "sort_key fst ?fin"
  have tags: "map fst ?S = [0..<length xs]"
    by (rule pool_tags_in_order)
  then have len: "length ?S = length xs"
    by (metis length_map length_upt minus_nat.diff_0)
  have "fst (?S ! i) = i"
    using tags assms len by (metis nth_map nth_upt add_0)
  moreover have "?S ! i \<in> set ?fin"
    using assms len by (metis nth_mem set_sort)
  ultimately have "(i, snd (?S ! i)) \<in> set ?fin"
    by (metis prod.collapse)
  then obtain w' where "snd (?S ! i) = fst (f (xs ! i) w')"
    using pool_run_results by blast
  moreover have "fst (pool_map e f xs w) ! i = snd (?S ! i)"
    using assms len by (simp add: pool_map_def Let_def split_beta)
  ultimately show ?thesis
    by auto
qed

lemma random_env_serial: "random env_serial = (\<lambda>k. 0)"
  by (simp add: env_serial_def)

lemma random_env_overlap: "random env_overlap = (\<lambda>k. 0)"
  by (simp add: env_overlap_def env_serial_def)


lemma create_outcomes_overlap:
  "create_outcomes self_demo env_overlap 2 True world0 = [(True, 1), (True, 1)]"
  unfolding create_outcomes_def create_start_zero_draws [OF random_env_overlap]
  by (simp add: replicate_2 dispatch_def self_demo_def env_overlap_def env_serial_def
      world0_def create_zone_def make_request_def dotted_def endswith_def zone_data_def
      emit_def pool_map_def session_headers_def truthy_def ok_def answer_def Let_def)

lemma create_outcomes_serial:
  "create_outcomes self_demo env_serial 2 False world0 = [(True, 1), (True, 1)]"
  unfolding create_outcomes_def create_start_zero_draws [OF random_env_serial]
  by (simp add: replicate_2 dispatch_def self_demo_def env_serial_def
      world0_def create_zone_def make_request_def dotted_def endswith_def zone_data_def
      emit_def session_headers_def truthy_def ok_def answer_def Let_def)

lemma create_zones_overlap:
  "fst (create_zones self_demo env_overlap 2 True world0)
     = Inr \<lparr>operation = ''create'', total_zones = 2, successful = 2, failed = 0,
            total_time_seconds = 1, average_time_per_zone = Some (1/2),
            response_times = Some \<lparr>rt_min = 1, rt_max = 1, rt_avg = 1, rt_median = 1\<rparr>\<rparr>"
  unfolding create_zones_eq create_start_zero_draws [OF random_env_overlap]
  by (simp add: replicate_2 dispatch_def self_demo_def env_overlap_def env_serial_def
      world0_def create_zone_def make_request_def dotted_def endswith_def zone_data_def
      emit_def pool_map_def session_headers_def truthy_def ok_def answer_def Let_def
      build_metrics_def py_truediv_def latency_stats_def bind_err_def py_min_def py_max_def
      statistics_mean_def statistics_median_def successes_def failures_def)

lemma create_zones_serial:
  "fst (create_zones self_demo env_serial 2 False world0)
     = Inr \<lparr>operation = ''create'', total_zones = 2, successful = 2, failed = 0,
            total_time_seconds = 2, average_time_per_zone = Some 1,
            response_times = Some \<lparr>rt_min = 1, rt_max = 1, rt_avg = 1, rt_median = 1\<rparr>\<rparr>"
  unfolding create_zones_eq create_start_zero_draws [OF random_env_serial]
  by (simp add: replicate_2 dispatch_def self_demo_def env_serial_def
      world0_def create_zone_def make_request_def dotted_def endswith_def zone_data_def
      emit_def session_headers_def truthy_def ok_def answer_def Let_def
      build_metrics_def py_truediv_def latency_stats_def bind_err_def py_min_def py_max_def
      statistics_mean_def statistics_median_def successes_def failures_def)

lemma get_zones_serial_full:
  "get_zones_with_prefix self_demo env_serial world0
     = (Inr [''loadtest-abc.com.'', ''loadtest-xyz.com.''],
        world0\<lparr>http_log := [\<lparr>req_method = GET,
            req_url = ''http://localhost:8081/api/v1/servers/localhost/zones'',
            req_headers = session_headers self_demo, req_json = None, req_timeout = 30,
            req_verify = True\<rparr>], ticks := 2\<rparr>)"
  by (simp add: get_zones_with_prefix_def list_zones_def make_request_def self_demo_def
      env_serial_def world0_def answer_def listing_demo_def truthy_def ok_def py_iter_def
      subscript_name_def py_startswith_def startswith_def bind_err_def Let_def
      session_headers_def)

lemma delete_outcomes_serial:
  "delete_outcomes self_demo env_serial par world0 = [(True, 1), (True, 1)]"
  unfolding delete_outcomes_def get_zones_serial_full
  by (simp add: dispatch_def delete_start_def self_demo_def env_serial_def world0_def
      delete_zone_def make_request_def dotted_def endswith_def emit_def pool_map_def
      session_headers_def truthy_def ok_def answer_def Let_def)

lemma pool_map_serial:
  "fst (pool_map env_serial (create_zone self_demo env_serial) [''a'', ''b''] world0)
     = [(True, 0), (True, 0)]"
  by (simp add: self_demo_def env_serial_def world0_def create_zone_def make_request_def
      dotted_def endswith_def zone_data_def emit_def pool_map_def session_headers_def
      truthy_def ok_def answer_def Let_def)

lemma call_each_serial:
  "fst (call_each (create_zone self_demo env_serial) [''a'', ''b''] world0)
     = [(True, 0), (True, 0)]"
  by (simp add: self_demo_def env_serial_def world0_def create_zone_def make_request_def
      dotted_def endswith_def zone_data_def emit_def session_headers_def
      truthy_def ok_def answer_def Let_def)

text \<open>A negative count: \<open>range(count)\<close> is empty, so nothing is created, and the record
  still carries the count as \<open>total_zones\<close>.\<close>

lemma create_zones_negative_count:
  assumes "cnt < 0"
  shows "create_outcomes self e cnt par w = []
    \<and> (\<exists>m. fst (create_zones self e cnt par w) = Inr m \<and> total_zones m = cnt
          \<and> successful m = 0 \<and> failed m = 0 \<and> response_times m = Some zero_latency)"
proof -
  have empty: "create_outcomes self e cnt par w = []"
    using length_create_outcomes [of self e cnt par w] assms by simp
  then show ?thesis
    using create_zones_metrics [of self e cnt par w]
    by (auto simp: latency_stats_empty successes_def failures_def)
qed

lemma get_zones_demo:
  "fst (get_zones_with_prefix self_demo env_demo world0)
     = Inr [''loadtest-abc.com.'', ''loadtest-xyz.com.'']"
  by (simp add: get_zones_with_prefix_def list_zones_def make_request_def self_demo_def
      env_demo_def world0_def answer_def listing_demo_def truthy_def ok_def py_iter_def
      subscript_name_def py_startswith_def startswith_def bind_err_def Let_def
      session_headers_def)

text \<open>
  The counts of a batch.  For a create batch with a requested count \<open>cnt \<ge> 0\<close> the
  count is the number of generated zone names and of outcome records, and the record has
  \<open>total_zones = cnt\<close> and \<open>successful + failed = cnt\<close>.  For a delete batch the same
  holds with the number of listed zones that carry the prefix, whenever the listing does
  not raise.  Both hold in sequential and in parallel mode (\<open>par\<close> and
  \<open>max_workers self\<close> are arbitrary).
\<close>

lemma counts_equal_batch_size:
  "(0 \<le> cnt \<longrightarrow>
      (\<exists>m. fst (create_zones self e cnt par w) = Inr m
         \<and> int (length (fst (create_start self e cnt w))) = cnt
         \<and> int (length (create_outcomes self e cnt par w)) = cnt
         \<and> total_zones m = cnt \<and> successful m + failed m = cnt))
   \<and> (fst (get_zones_with_prefix self e w) = Inr zs \<longrightarrow>
      (\<exists>m. fst (delete_zones_with_prefix self e par w) = Inr m
         \<and> length (delete_outcomes self e par w) = length zs
         \<and> total_zones m = int (length zs)
         \<and> successful m + failed m = int (length zs)))"
proof (intro conjI impI)
  assume nonneg: "0 \<le> cnt"
  obtain t lat where
    "fst (create_zones self e cnt par w) =
       Inr \<lparr>operation = ''create'', total_zones = cnt,
            successful = successes (create_outcomes self e cnt par w),
            failed = failures (create_outcomes self e cnt par w),
            total_time_seconds = t,
            average_time_per_zone = Some (if cnt > 0 then t / real_of_int cnt else 0),
            response_times = Some lat\<rparr>"
    using create_zones_metrics by blast
  then show "\<exists>m. fst (create_zones self e cnt par w) = Inr m
         \<and> int (length (fst (create_start self e cnt w))) = cnt
         \<and> int (length (create_outcomes self e cnt par w)) = cnt
         \<and> total_zones m = cnt \<and> successful m + failed m = cnt"
    using nonneg
    by (simp add: successes_failures length_create_outcomes length_create_start)
next
  assume g: "fst (get_zones_with_prefix self e w) = Inr zs"
  show "\<exists>m. fst (delete_zones_with_prefix self e par w) = Inr m
         \<and> length (delete_outcomes self e par w) = length zs
         \<and> total_zones m = int (length zs)
         \<and> successful m + failed m = int (length zs)"
  proof (cases "zs = []")
    case True
    obtain w1 where "get_zones_with_prefix self e w = (Inr [], w1)"
      using g True by (cases "get_zones_with_prefix self e w") simp
    then show ?thesis
      using True length_delete_outcomes [OF g, of par]
      by (simp add: delete_zones_empty no_work_metrics_def)
  next
    case False
    obtain t lat where
      "fst (delete_zones_with_prefix self e par w) =
         Inr \<lparr>operation = ''delete'', total_zones = int (length zs),
              successful = successes (delete_outcomes self e par w),
              failed = failures (delete_outcomes self e par w),
              total_time_seconds = t,
              average_time_per_zone = Some (t / real (length zs)),
              response_times = Some lat\<rparr>"
      using delete_zones_metrics [OF g False] by blast
    then show ?thesis
      using length_delete_outcomes [OF g, of par] by (simp add: successes_failures)
  qed
qed

lemma counts_equal_batch_size_example:
  "(0::int) \<le> 2
   \<and> (\<exists>m. fst (create_zones self_demo env_demo 2 True world0) = Inr m
         \<and> int (length (fst (create_start self_demo env_demo 2 world0))) = 2
         \<and> int (length (create_outcomes self_demo env_demo 2 True world0)) = 2
         \<and> total_zones m = 2 \<and> successful m + failed m = 2)
   \<and> fst (get_zones_with_prefix self_demo env_demo world0)
       = Inr [''loadtest-abc.com.'', ''loadtest-xyz.com.'']
   \<and> (\<exists>m. fst (delete_zones_with_prefix self_demo env_demo False world0) = Inr m
         \<and> length (delete_outcomes self_demo env_demo False world0) = 2
         \<and> total_zones m = 2 \<and> successful m + failed m = 2)"
  using counts_equal_batch_size
    [where cnt = 2 and self = self_demo and e = env_demo and par = True and w = world0
       and zs = "[''loadtest-abc.com.'', ''loadtest-xyz.com.'']"]
    counts_equal_batch_size
    [where cnt = 2 and self = self_demo and e = env_demo and par = False and w = world0
       and zs = "[''loadtest-abc.com.'', ''loadtest-xyz.com.'']"]
    get_zones_demo
  by (simp add: numeral_2_eq_2)

section \<open>The claims\<close>

text \<open>
  Claim C1.  For every batch of \<open>N\<close> descriptors the metrics record has
  \<open>total_zones = N\<close> and \<open>successful + failed = N\<close>, for create and delete batches in
  either mode.  The code breaks this for a create batch with a negative count:
  \<open>range(count)\<close> is empty, so the batch has no descriptor and no outcome record, while
  the record carries \<open>total_zones = count\<close>.  At \<open>count = -3\<close> the record has
  \<open>total_zones = -3\<close> and \<open>successful + failed = 0\<close> for a batch of \<open>0\<close>
  descriptors, in both modes.  (For a count \<open>N \<ge> 0\<close> and for every delete batch the
  property holds: lemma \<open>counts_equal_batch_size\<close>.)
\<close>

theorem C1_negative_count_diverges:
  "fst (create_start self_demo env_demo (- 3) world0) = []
   \<and> create_outcomes self_demo env_demo (- 3) False world0 = []
   \<and> create_outcomes self_demo env_demo (- 3) True world0 = []
   \<and> fst (create_zones self_demo env_demo (- 3) False world0)
       = Inr \<lparr>operation = ''create'', total_zones = - 3, successful = 0, failed = 0,
              total_time_seconds = 0, average_time_per_zone = Some 0,
              response_times = Some zero_latency\<rparr>
   \<and> fst (create_zones self_demo env_demo (- 3) True world0)
       = Inr \<lparr>operation = ''create'', total_zones = - 3, successful = 0, failed = 0,
              total_time_seconds = 0, average_time_per_zone = Some 0,
              response_times = Some zero_latency\<rparr>
   \<and> (- 3 :: int) \<noteq> int (length (fst (create_start self_demo env_demo (- 3) world0)))"
proof -
  have names: "create_start self_demo env_demo (- 3) world0
      = ([], world0\<lparr>stdout := [Creating (- 3) ''loadtest-''], ticks := 1\<rparr>)"
    by (simp add: create_start_zero_draws [OF random_env_demo] self_demo_def world0_def)
  have seq: "fst (create_zones self_demo env_demo (- 3) False world0)
       = Inr \<lparr>operation = ''create'', total_zones = - 3, successful = 0, failed = 0,
              total_time_seconds = 0, average_time_per_zone = Some 0,
              response_times = Some zero_latency\<rparr>"
    unfolding create_zones_eq names
    by (simp add: dispatch_def self_demo_def env_demo_def world0_def build_metrics_def
        latency_stats_def bind_err_def successes_def failures_def zero_latency_def)
  have par: "fst (create_zones self_demo env_demo (- 3) True world0)
       = Inr \<lparr>operation = ''create'', total_zones = - 3, successful = 0, failed = 0,
              total_time_seconds = 0, average_time_per_zone = Some 0,
              response_times = Some zero_latency\<rparr>"
    unfolding create_zones_eq names
    by (simp add: dispatch_def pool_map_def self_demo_def env_demo_def world0_def
        build_metrics_def latency_stats_def bind_err_def successes_def failures_def
        zero_latency_def)
  have out: "create_outcomes self_demo env_demo (- 3) par world0 = []" for par
    using length_create_outcomes [of self_demo env_demo "- 3" par world0] by simp
  show ?thesis
    using names seq par out by simp
qed

text \<open>
  Claim C2.  The latency statistics of a batch are the minimum, maximum, mean and median
  of the durations of all its outcome records, the failed ones included: the statistics are
  those of the list \<open>map snd\<close> of all outcome records (one per descriptor), so the
  duration of every record, and of every failed record in particular, lies between the
  reported minimum and maximum and enters the mean and the median.  Stated for non-empty
  create and delete batches in either mode.
\<close>

theorem C2_latency_over_all_outcomes:
  "(0 < cnt \<longrightarrow>
      (\<exists>m lat. fst (create_zones self e cnt par w) = Inr m \<and> response_times m = Some lat
         \<and> length (create_outcomes self e cnt par w) = nat cnt
         \<and> stats_over (map snd (create_outcomes self e cnt par w)) lat
         \<and> (\<forall>r \<in> set (create_outcomes self e cnt par w).
               rt_min lat \<le> snd r \<and> snd r \<le> rt_max lat)
         \<and> (\<forall>d. (False, d) \<in> set (create_outcomes self e cnt par w) \<longrightarrow>
               rt_min lat \<le> d \<and> d \<le> rt_max lat)))
   \<and> (fst (get_zones_with_prefix self e w) = Inr zs \<and> zs \<noteq> [] \<longrightarrow>
      (\<exists>m lat. fst (delete_zones_with_prefix self e par w) = Inr m
         \<and> response_times m = Some lat
         \<and> length (delete_outcomes self e par w) = length zs
         \<and> stats_over (map snd (delete_outcomes self e par w)) lat
         \<and> (\<forall>r \<in> set (delete_outcomes self e par w).
               rt_min lat \<le> snd r \<and> snd r \<le> rt_max lat)
         \<and> (\<forall>d. (False, d) \<in> set (delete_outcomes self e par w) \<longrightarrow>
               rt_min lat \<le> d \<and> d \<le> rt_max lat)))"
proof -
  have bounds: "stats_over (map snd rs) lat \<and> (\<forall>r \<in> set rs. rt_min lat \<le> snd r \<and> snd r \<le> rt_max lat)
      \<and> (\<forall>d. (False, d) \<in> set rs \<longrightarrow> rt_min lat \<le> d \<and> d \<le> rt_max lat)"
    if "rs \<noteq> []" and "latency_stats (map snd rs) = Inr lat" for rs :: "(bool \<times> real) list" and lat
  proof -
    have lat: "lat = \<lparr>rt_min = Min (set (map snd rs)), rt_max = Max (set (map snd rs)),
          rt_avg = sum_list (map snd rs) / real (length (map snd rs)),
          rt_median = median_of (map snd rs)\<rparr>"
      using that latency_stats_nonempty [of "map snd rs"] by simp
    have in_range: "Min (set (map snd rs)) \<le> snd r \<and> snd r \<le> Max (set (map snd rs))"
      if "r \<in> set rs" for r
      using that by (simp add: Min_le Max_ge)
    show ?thesis
      using in_range by (force simp: lat stats_over_def)
  qed
  show ?thesis
  proof (intro conjI impI)
    assume pos: "0 < cnt"
    obtain t lat where
      l: "latency_stats (map snd (create_outcomes self e cnt par w)) = Inr lat" and
      m: "fst (create_zones self e cnt par w) =
         Inr \<lparr>operation = ''create'', total_zones = cnt,
              successful = successes (create_outcomes self e cnt par w),
              failed = failures (create_outcomes self e cnt par w),
              total_time_seconds = t,
              average_time_per_zone = Some (if cnt > 0 then t / real_of_int cnt else 0),
              response_times = Some lat\<rparr>"
      using create_zones_metrics by blast
    have ne: "create_outcomes self e cnt par w \<noteq> []"
      using length_create_outcomes [of self e cnt par w] pos by auto
    show "\<exists>m lat. fst (create_zones self e cnt par w) = Inr m \<and> response_times m = Some lat
         \<and> length (create_outcomes self e cnt par w) = nat cnt
         \<and> stats_over (map snd (create_outcomes self e cnt par w)) lat
         \<and> (\<forall>r \<in> set (create_outcomes self e cnt par w).
               rt_min lat \<le> snd r \<and> snd r \<le> rt_max lat)
         \<and> (\<forall>d. (False, d) \<in> set (create_outcomes self e cnt par w) \<longrightarrow>
               rt_min lat \<le> d \<and> d \<le> rt_max lat)"
      using bounds [OF ne l] m length_create_outcomes [of self e cnt par w] by simp
  next
    assume a: "fst (get_zones_with_prefix self e w) = Inr zs \<and> zs \<noteq> []"
    then have g: "fst (get_zones_with_prefix self e w) = Inr zs" and nz: "zs \<noteq> []"
      by simp_all
    obtain t lat where
      l: "latency_stats (map snd (delete_outcomes self e par w)) = Inr lat" and
      m: "fst (delete_zones_with_prefix self e par w) =
         Inr \<lparr>operation = ''delete'', total_zones = int (length zs),
              successful = successes (delete_outcomes self e par w),
              failed = failures (delete_outcomes self e par w),
              total_time_seconds = t,
              average_time_per_zone = Some (t / real (length zs)),
              response_times = Some lat\<rparr>"
      using delete_zones_metrics [OF g nz] by blast
    have ne: "delete_outcomes self e par w \<noteq> []"
      using length_delete_outcomes [OF g, of par] nz by auto
    show "\<exists>m lat. fst (delete_zones_with_prefix self e par w) = Inr m
         \<and> response_times m = Some lat
         \<and> length (delete_outcomes self e par w) = length zs
         \<and> stats_over (map snd (delete_outcomes self e par w)) lat
         \<and> (\<forall>r \<in> set (delete_outcomes self e par w).
               rt_min lat \<le> snd r \<and> snd r \<le> rt_max lat)
         \<and> (\<forall>d. (False, d) \<in> set (delete_outcomes self e par w) \<longrightarrow>
               rt_min lat \<le> d \<and> d \<le> rt_max lat)"
      using bounds [OF ne l] m length_delete_outcomes [OF g, of par] by simp
  qed
qed

theorem C2_witness:
  "(0::int) < 2
   \<and> create_outcomes self_demo env_demo 2 False world0 = [(True, 1/10), (False, 1/5)]
   \<and> (\<exists>m lat. fst (create_zones self_demo env_demo 2 False world0) = Inr m
         \<and> response_times m = Some lat
         \<and> rt_min lat = 1/10 \<and> rt_max lat = 1/5 \<and> rt_avg lat = 3/20 \<and> rt_median lat = 3/20)
   \<and> fst (get_zones_with_prefix self_demo env_demo world0)
        = Inr [''loadtest-abc.com.'', ''loadtest-xyz.com.'']
   \<and> delete_outcomes self_demo env_demo False world0 = [(False, 1/5), (True, 3/10)]
   \<and> (\<exists>m lat. fst (delete_zones_with_prefix self_demo env_demo False world0) = Inr m
         \<and> response_times m = Some lat
         \<and> rt_min lat = 1/5 \<and> rt_max lat = 3/10 \<and> rt_avg lat = 1/4 \<and> rt_median lat = 1/4)"
  using C2_latency_over_all_outcomes
    [where cnt = 2 and self = self_demo and e = env_demo and par = False and w = world0
       and zs = "[''loadtest-abc.com.'', ''loadtest-xyz.com.'']"]
    get_zones_demo create_outcomes_demo_2 delete_outcomes_demo
  by (auto simp: stats_over_def median_of_def)

text \<open>
  Claim C3, as stated, fails for the delete batch.  The claim: whenever the sequence of
  outcome records is empty (create with count 0, delete with an empty filtered set) the
  returned record has \<open>total_zones = 0\<close> and latency statistics that are all zero.
  For a delete batch whose filtered set is empty the early return of
  \<open>delete_zones_with_prefix\<close> builds a dictionary without the key \<open>"response_times"\<close>
  (and without \<open>"average_time_per_zone"\<close>): there are no latency statistics in it, zero or
  other.
\<close>

theorem C3_counterexample:
  "delete_outcomes self_demo env_no_match False world0 = []
   \<and> fst (delete_zones_with_prefix self_demo env_no_match False world0) = Inr no_work_metrics
   \<and> response_times no_work_metrics = None
   \<and> response_times no_work_metrics \<noteq> Some zero_latency"
  using delete_zones_no_work(1) [OF get_zones_no_match, of False]
    length_delete_outcomes [OF get_zones_no_match, of False]
  by (simp add: no_work_metrics_def)

text \<open>
  Claim C3, amended.  Neither empty batch raises.  A create batch with count 0 returns
  \<open>total_zones = 0\<close>, zero counts and latency statistics that are all zero; a delete batch
  whose filtered set is empty returns \<open>total_zones = 0\<close>, zero counts, a total time of
  0 and no latency statistics at all.
\<close>

theorem C3_empty_batches:
  "(\<exists>t. fst (create_zones self e 0 par w)
          = Inr \<lparr>operation = ''create'', total_zones = 0, successful = 0, failed = 0,
                 total_time_seconds = t, average_time_per_zone = Some 0,
                 response_times = Some zero_latency\<rparr>)
   \<and> (fst (get_zones_with_prefix self e w) = Inr [] \<longrightarrow>
        fst (delete_zones_with_prefix self e par w)
          = Inr \<lparr>operation = ''delete'', total_zones = 0, successful = 0, failed = 0,
                 total_time_seconds = 0, average_time_per_zone = None,
                 response_times = None\<rparr>)"
proof (intro conjI impI)
  have "create_outcomes self e 0 par w = []"
    using length_create_outcomes [of self e 0 par w] by simp
  then show "\<exists>t. fst (create_zones self e 0 par w)
          = Inr \<lparr>operation = ''create'', total_zones = 0, successful = 0, failed = 0,
                 total_time_seconds = t, average_time_per_zone = Some 0,
                 response_times = Some zero_latency\<rparr>"
    using create_zones_metrics [of self e 0 par w]
    by (auto simp: latency_stats_empty successes_def failures_def)
next
  assume "fst (get_zones_with_prefix self e w) = Inr []"
  then show "fst (delete_zones_with_prefix self e par w)
          = Inr \<lparr>operation = ''delete'', total_zones = 0, successful = 0, failed = 0,
                 total_time_seconds = 0, average_time_per_zone = None,
                 response_times = None\<rparr>"
    using delete_zones_no_work(1) [of self e w par] by (simp add: no_work_metrics_def)
qed

theorem C3_witness:
  "(\<exists>t. fst (create_zones self_demo env_no_match 0 True world0)
          = Inr \<lparr>operation = ''create'', total_zones = 0, successful = 0, failed = 0,
                 total_time_seconds = t, average_time_per_zone = Some 0,
                 response_times = Some zero_latency\<rparr>)
   \<and> fst (get_zones_with_prefix self_demo env_no_match world0) = Inr []
   \<and> fst (delete_zones_with_prefix self_demo env_no_match True world0)
          = Inr \<lparr>operation = ''delete'', total_zones = 0, successful = 0, failed = 0,
                 total_time_seconds = 0, average_time_per_zone = None,
                 response_times = None\<rparr>"
  using C3_empty_batches [of self_demo env_no_match True world0] get_zones_no_match
  by simp






text \<open>
  Claim C7.  When the listing filtered by the prefix yields no zone name, the delete batch
  returns the zero-count record and sends no DELETE request: the only request it adds to
  the log is the GET of the listing.
\<close>

theorem C7_empty_delete_is_noop:
  "fst (get_zones_with_prefix self e w) = Inr [] \<Longrightarrow>
   fst (delete_zones_with_prefix self e par w)
     = Inr \<lparr>operation = ''delete'', total_zones = 0, successful = 0, failed = 0,
            total_time_seconds = 0, average_time_per_zone = None, response_times = None\<rparr>
   \<and> delete_calls (snd (delete_zones_with_prefix self e par w)) = delete_calls w
   \<and> (\<exists>req. req_method req = GET
         \<and> http_log (snd (delete_zones_with_prefix self e par w)) = http_log w @ [req])"
  using delete_zones_no_work [of self e w par] by (simp add: no_work_metrics_def)

theorem C7_witness:
  "fst (get_zones_with_prefix self_demo env_no_match world0) = Inr []
   \<and> fst (delete_zones_with_prefix self_demo env_no_match True world0)
     = Inr \<lparr>operation = ''delete'', total_zones = 0, successful = 0, failed = 0,
            total_time_seconds = 0, average_time_per_zone = None, response_times = None\<rparr>
   \<and> delete_calls (snd (delete_zones_with_prefix self_demo env_no_match True world0)) = []
   \<and> length (http_log (snd (delete_zones_with_prefix self_demo env_no_match True world0))) = 1"
  using C7_empty_delete_is_noop [OF get_zones_no_match, of True] get_zones_no_match
  by (auto simp: delete_calls_def world0_def)

text \<open>
  Claim C8.  When both \<open>--create-only\<close> and \<open>--delete-only\<close> are given, \<open>main\<close> prints
  the error message and exits with code 1; it has sent no HTTP request and constructed no
  client session (the request log and the session count of the world are unchanged, and
  the message is the only output).
\<close>

theorem C8_exclusive_modes_exit:
  "arg_create_only a \<and> arg_delete_only a \<Longrightarrow>
   main e a w = (Exit 1, emit [ErrorBothModes] w)
   \<and> http_log (snd (main e a w)) = http_log w
   \<and> sessions (snd (main e a w)) = sessions w
   \<and> stdout (snd (main e a w)) = stdout w @ [ErrorBothModes]"
  by (simp add: main_def emit_def)

theorem C8_witness:
  "arg_create_only args_demo \<and> arg_delete_only args_demo
   \<and> main env_demo args_demo world0 = (Exit 1, emit [ErrorBothModes] world0)
   \<and> http_log (snd (main env_demo args_demo world0)) = []
   \<and> sessions (snd (main env_demo args_demo world0)) = 0
   \<and> stdout (snd (main env_demo args_demo world0)) = [ErrorBothModes]"
proof -
  have both: "arg_create_only args_demo \<and> arg_delete_only args_demo"
    by (simp add: args_demo_def)
  from C8_exclusive_modes_exit [OF both, of env_demo world0] show ?thesis
    using both by (simp add: world0_def emit_def)
qed

text \<open>
  Claim C9, as stated, fails.  The claim: given identical per-operation outcomes, parallel
  mode produces the same metrics record as sequential mode.  The record also holds
  \<open>total_time_seconds\<close> (and \<open>average_time_per_zone\<close>), the wall-clock time of the batch,
  which the per-operation outcomes do not determine: two calls of one second each give a
  total of 2 seconds one after the other and of 1 second side by side.
\<close>

theorem C9_counterexample:
  "create_outcomes self_demo env_overlap 2 True world0
     = create_outcomes self_demo env_serial 2 False world0
   \<and> fst (create_zones self_demo env_overlap 2 True world0)
     \<noteq> fst (create_zones self_demo env_serial 2 False world0)"
  by (simp add: create_outcomes_overlap create_outcomes_serial create_zones_overlap
        create_zones_serial)

text \<open>
  Claim C9, amended.  Given identical per-operation outcomes, the records of parallel and
  sequential mode agree on the operation, the counts (\<open>total_zones\<close>, \<open>successful\<close>,
  \<open>failed\<close>) and the latency statistics; the wall-clock entries may differ.  The pool map
  returns one result per input name in input order, and folding \<open>tally\<close> over that list
  gives what the sequential loop accumulates over the same outcomes.
\<close>

theorem C9_mode_independent_counts_and_latency:
  "(fst (pool_map e1 f1 xs w1) = fst (call_each f2 xs w2) \<longrightarrow>
      collect_results (fst (pool_map e1 f1 xs w1)) (0, 0, [])
        = fst (sequential_loop f2 xs (0, 0, []) w2))
   \<and> length (fst (pool_map e1 f1 xs w1)) = length xs
   \<and> (\<forall>i. i < length xs \<longrightarrow>
         (\<exists>w'. fst (pool_map e1 f1 xs w1) ! i = fst (f1 (xs ! i) w')))
   \<and> (create_outcomes self e1 cnt True w1 = create_outcomes self e2 cnt False w2 \<longrightarrow>
      (\<exists>m1 m2. fst (create_zones self e1 cnt True w1) = Inr m1
         \<and> fst (create_zones self e2 cnt False w2) = Inr m2
         \<and> same_counts_and_latency m1 m2))
   \<and> (fst (get_zones_with_prefix self e1 w1) = Inr zs
        \<and> fst (get_zones_with_prefix self e2 w2) = Inr zs
        \<and> delete_outcomes self e1 True w1 = delete_outcomes self e2 False w2 \<longrightarrow>
      (\<exists>m1 m2. fst (delete_zones_with_prefix self e1 True w1) = Inr m1
         \<and> fst (delete_zones_with_prefix self e2 False w2) = Inr m2
         \<and> same_counts_and_latency m1 m2))"
proof (intro conjI impI allI)
  assume "fst (pool_map e1 f1 xs w1) = fst (call_each f2 xs w2)"
  then show "collect_results (fst (pool_map e1 f1 xs w1)) (0, 0, [])
        = fst (sequential_loop f2 xs (0, 0, []) w2)"
    by (simp add: sequential_loop_eq)
next
  show "length (fst (pool_map e1 f1 xs w1)) = length xs"
    by (rule length_pool_map)
next
  fix i assume "i < length xs"
  then show "\<exists>w'. fst (pool_map e1 f1 xs w1) ! i = fst (f1 (xs ! i) w')"
    by (rule pool_map_nth)
next
  assume same: "create_outcomes self e1 cnt True w1 = create_outcomes self e2 cnt False w2"
  show "\<exists>m1 m2. fst (create_zones self e1 cnt True w1) = Inr m1
         \<and> fst (create_zones self e2 cnt False w2) = Inr m2
         \<and> same_counts_and_latency m1 m2"
    using create_zones_metrics [of self e1 cnt True w1]
      create_zones_metrics [of self e2 cnt False w2] same
    by (auto simp: same_counts_and_latency_def)
next
  assume a: "fst (get_zones_with_prefix self e1 w1) = Inr zs
        \<and> fst (get_zones_with_prefix self e2 w2) = Inr zs
        \<and> delete_outcomes self e1 True w1 = delete_outcomes self e2 False w2"
  then have g1: "fst (get_zones_with_prefix self e1 w1) = Inr zs"
    and g2: "fst (get_zones_with_prefix self e2 w2) = Inr zs"
    and same: "delete_outcomes self e1 True w1 = delete_outcomes self e2 False w2"
    by simp_all
  show "\<exists>m1 m2. fst (delete_zones_with_prefix self e1 True w1) = Inr m1
         \<and> fst (delete_zones_with_prefix self e2 False w2) = Inr m2
         \<and> same_counts_and_latency m1 m2"
  proof (cases "zs = []")
    case True
    then show ?thesis
      using delete_zones_no_work(1) [of self e1 w1 True]
        delete_zones_no_work(1) [of self e2 w2 False] g1 g2
      by (simp add: same_counts_and_latency_def)
  next
    case False
    then show ?thesis
      using delete_zones_metrics [OF g1 False, of True]
        delete_zones_metrics [OF g2 False, of False] same
      by (auto simp: same_counts_and_latency_def)
  qed
qed

theorem C9_witness:
  "fst (pool_map env_serial (create_zone self_demo env_serial) [''a'', ''b''] world0)
     = fst (call_each (create_zone self_demo env_serial) [''a'', ''b''] world0)
   \<and> collect_results
        (fst (pool_map env_serial (create_zone self_demo env_serial) [''a'', ''b''] world0))
        (0, 0, [])
      = fst (sequential_loop (create_zone self_demo env_serial) [''a'', ''b''] (0, 0, []) world0)
   \<and> (1::nat) < length [''a'', ''b'']
   \<and> (\<exists>w'. fst (pool_map env_serial (create_zone self_demo env_serial) [''a'', ''b''] world0) ! 1
          = fst (create_zone self_demo env_serial ([''a'', ''b''] ! 1) w'))
   \<and> create_outcomes self_demo env_overlap 2 True world0
     = create_outcomes self_demo env_serial 2 False world0
   \<and> (\<exists>m1 m2. fst (create_zones self_demo env_overlap 2 True world0) = Inr m1
         \<and> fst (create_zones self_demo env_serial 2 False world0) = Inr m2
         \<and> same_counts_and_latency m1 m2
         \<and> total_time_seconds m1 = 1 \<and> total_time_seconds m2 = 2)
   \<and> fst (get_zones_with_prefix self_demo env_serial world0)
        = Inr [''loadtest-abc.com.'', ''loadtest-xyz.com.'']
   \<and> delete_outcomes self_demo env_serial True world0
        = delete_outcomes self_demo env_serial False world0
   \<and> (\<exists>m1 m2. fst (delete_zones_with_prefix self_demo env_serial True world0) = Inr m1
         \<and> fst (delete_zones_with_prefix self_demo env_serial False world0) = Inr m2
         \<and> same_counts_and_latency m1 m2)"
proof -
  have p: "fst (pool_map env_serial (create_zone self_demo env_serial) [''a'', ''b''] world0)
     = fst (call_each (create_zone self_demo env_serial) [''a'', ''b''] world0)"
    by (simp only: pool_map_serial call_each_serial)
  have c: "create_outcomes self_demo env_overlap 2 True world0
     = create_outcomes self_demo env_serial 2 False world0"
    by (simp add: create_outcomes_overlap create_outcomes_serial)
  have g: "fst (get_zones_with_prefix self_demo env_serial world0)
        = Inr [''loadtest-abc.com.'', ''loadtest-xyz.com.'']"
    by (simp add: get_zones_serial_full)
  have d: "delete_outcomes self_demo env_serial True world0
        = delete_outcomes self_demo env_serial False world0"
    by (simp add: delete_outcomes_serial)
  have one: "(1::nat) < length [''a'', ''b'']"
    by simp
  note create = C9_mode_independent_counts_and_latency
      [where self = self_demo and ?e1.0 = env_overlap and ?e2.0 = env_serial and cnt = 2
         and ?w1.0 = world0 and ?w2.0 = world0 and zs = "[]"]
  note delete = C9_mode_independent_counts_and_latency
      [where self = self_demo and ?e1.0 = env_serial and ?e2.0 = env_serial and cnt = 2
         and ?w1.0 = world0 and ?w2.0 = world0
         and zs = "[''loadtest-abc.com.'', ''loadtest-xyz.com.'']"
         and ?f1.0 = "create_zone self_demo env_serial"
         and ?f2.0 = "create_zone self_demo env_serial" and xs = "[''a'', ''b'']"]
  have loops: "collect_results
        (fst (pool_map env_serial (create_zone self_demo env_serial) [''a'', ''b''] world0))
        (0, 0, [])
      = fst (sequential_loop (create_zone self_demo env_serial) [''a'', ''b''] (0, 0, []) world0)"
    using delete p by blast
  have nth: "\<exists>w'. fst (pool_map env_serial (create_zone self_demo env_serial) [''a'', ''b''] world0) ! 1
          = fst (create_zone self_demo env_serial ([''a'', ''b''] ! 1) w')"
    using delete one by blast
  have cr: "\<exists>m1 m2. fst (create_zones self_demo env_overlap 2 True world0) = Inr m1
         \<and> fst (create_zones self_demo env_serial 2 False world0) = Inr m2
         \<and> same_counts_and_latency m1 m2
         \<and> total_time_seconds m1 = 1 \<and> total_time_seconds m2 = 2"
    using create c create_zones_overlap create_zones_serial by simp
  have de: "\<exists>m1 m2. fst (delete_zones_with_prefix self_demo env_serial True world0) = Inr m1
         \<and> fst (delete_zones_with_prefix self_demo env_serial False world0) = Inr m2
         \<and> same_counts_and_latency m1 m2"
    using delete g d by blast
  show ?thesis
    using p loops one nth c cr g d de by blast
qed

text \<open>
  Claim C10.  When the listing request fails (a transport error, so no response, or a
  response whose status is not 200), \<open>list_zones\<close> returns the empty list instead of
  raising, \<open>get_zones_with_prefix\<close> returns the empty list, and
  \<open>delete_zones_with_prefix\<close> returns the zero-count record without sending a DELETE
  request.
\<close>

theorem C10_failed_listing_is_zero_work:
  assumes "make_request self e GET ''zones'' None w = ((resp, t), w1)"
    and "resp = None \<or> (\<exists>r. resp = Some r \<and> status_code r \<noteq> 200)"
  shows "fst (list_zones self e w) = Inr (JArr [], t)
    \<and> fst (get_zones_with_prefix self e w) = Inr []
    \<and> fst (delete_zones_with_prefix self e par w) = Inr no_work_metrics
    \<and> total_zones no_work_metrics = 0
    \<and> delete_calls (snd (delete_zones_with_prefix self e par w)) = delete_calls w"
proof -
  have l: "fst (list_zones self e w) = Inr (JArr [], t)"
    using list_zones_failed [OF assms] .
  have g: "fst (get_zones_with_prefix self e w) = Inr []"
    using get_zones_of_empty_listing [OF l] .
  show ?thesis
    using l g delete_zones_no_work [OF g, of par] by (simp add: no_work_metrics_def)
qed

theorem C10_witness:
  "fst (make_request self_demo env_down GET ''zones'' None world0) = (None, 0)
   \<and> fst (list_zones self_demo env_down world0) = Inr (JArr [], 0)
   \<and> fst (get_zones_with_prefix self_demo env_down world0) = Inr []
   \<and> fst (delete_zones_with_prefix self_demo env_down False world0) = Inr no_work_metrics
   \<and> delete_calls (snd (delete_zones_with_prefix self_demo env_down False world0)) = []
   \<and> fst (make_request self_demo env_not_found GET ''zones'' None world0)
       = (Some \<lparr>status_code = 404, resp_text = [], json_body = None\<rparr>, 0)
   \<and> fst (list_zones self_demo env_not_found world0) = Inr (JArr [], 0)
   \<and> fst (get_zones_with_prefix self_demo env_not_found world0) = Inr []
   \<and> fst (delete_zones_with_prefix self_demo env_not_found True world0) = Inr no_work_metrics
   \<and> delete_calls (snd (delete_zones_with_prefix self_demo env_not_found True world0)) = []"
proof -
  have a: "make_request self_demo env_down GET ''zones'' None world0
      = ((None, 0), snd (make_request self_demo env_down GET ''zones'' None world0))"
    using make_request_down by (metis prod.collapse)
  have b: "make_request self_demo env_not_found GET ''zones'' None world0
      = ((Some \<lparr>status_code = 404, resp_text = [], json_body = None\<rparr>, 0),
         snd (make_request self_demo env_not_found GET ''zones'' None world0))"
    using make_request_not_found by (metis prod.collapse)
  have e: "delete_calls world0 = []"
    by (simp add: delete_calls_def world0_def)
  show ?thesis
    using C10_failed_listing_is_zero_work [OF a, of False]
      C10_failed_listing_is_zero_work [OF b, of True]
      make_request_down make_request_not_found e
    by simp
qed

end
